theory Spec2Isabelle
  imports Complex_Main
begin

section \<open>The movie graph\<close>

text \<open>
  Both scripts query one property graph. Its shape is the one the schema text of
  \<^verbatim>\<open>text2cypher_rag.py\<close> describes: nodes with string properties, typed relationships,
  and an integer \<^verbatim>\<open>rating\<close> on \<^verbatim>\<open>RATED\<close>. A property that a node or relationship
  does not carry reads as null in Cypher; null is \<open>None\<close> here.
\<close>

type_synonym node_id = nat

record relationship =
  start_node :: node_id
  rel_type :: string
  end_node :: node_id
  rating :: "int option"

record graph =
  node_title :: "node_id \<Rightarrow> string option"
  node_plot :: "node_id \<Rightarrow> string option"
  node_name :: "node_id \<Rightarrow> string option"
  relationships :: "relationship list"

section \<open>The retrieval query of \<^verbatim>\<open>vector_cypher_rag.py\<close>\<close>

text \<open>
  The Cypher text bound to \<^verbatim>\<open>retrieval_query\<close> runs on the rows \<open>(node, score)\<close> that the
  vector index yields. Each clause of the query is one function below. Numbers are exact
  rationals: the query does no arithmetic on the score, and the average is only compared.
\<close>

type_synonym candidate = "node_id \<times> rat"

text \<open>One record of the \<^verbatim>\<open>RETURN\<close> clause, a field for each alias.\<close>

record item =
  title :: "string option"
  plot :: "string option"
  similarityScore :: "rat option"
  genres :: "string option list"
  actors :: "string option list"
  userRating :: "rat option"

text \<open>\<^verbatim>\<open>MATCH (node) <-[r:RATED]-()\<close>: one row for each \<^verbatim>\<open>RATED\<close> relationship that ends at
  the candidate node.\<close>

definition rated_into :: "graph \<Rightarrow> node_id \<Rightarrow> relationship list" where
  "rated_into g node =
     filter (\<lambda>r. rel_type r = ''RATED'' \<and> end_node r = node) (relationships g)"

definition match_rated :: "graph \<Rightarrow> candidate list \<Rightarrow> (candidate \<times> relationship) list" where
  "match_rated g rows = concat (map (\<lambda>c. map (\<lambda>r. (c, r)) (rated_into g (fst c))) rows)"

text \<open>\<^verbatim>\<open>collect { MATCH (node)-[:IN_GENRE]->(g) RETURN g.name }\<close>. A \<^verbatim>\<open>COLLECT\<close> subquery
  keeps null values.\<close>

definition collect_genres :: "graph \<Rightarrow> node_id \<Rightarrow> string option list" where
  "collect_genres g node =
     map (\<lambda>r. node_name g (end_node r))
       (filter (\<lambda>r. rel_type r = ''IN_GENRE'' \<and> start_node r = node) (relationships g))"

text \<open>\<^verbatim>\<open>collect { MATCH (node)<-[:ACTED_IN]->(a) RETURN a.name }\<close>. The pattern has an arrow
  head at both ends, so it matches the relationship in either direction.\<close>

definition collect_actors :: "graph \<Rightarrow> node_id \<Rightarrow> string option list" where
  "collect_actors g node =
     map (\<lambda>r. node_name g (if end_node r = node then start_node r else end_node r))
       (filter (\<lambda>r. rel_type r = ''ACTED_IN'' \<and> (start_node r = node \<or> end_node r = node))
          (relationships g))"

text \<open>\<^verbatim>\<open>avg(r.rating)\<close> skips null values and is null when nothing is left.\<close>

definition avg :: "int option list \<Rightarrow> rat option" where
  "avg vs =
     (let xs = map the (filter (\<lambda>v. v \<noteq> None) vs)
      in if xs = [] then None else Some (of_int (sum_list xs) / of_nat (length xs)))"

text \<open>The \<^verbatim>\<open>RETURN\<close> clause mixes plain expressions with the aggregate \<^verbatim>\<open>avg\<close>, so the
  plain expressions are the grouping key and there is one record for each distinct key.
  Cypher fixes no order of the groups; the sort below follows anyway.\<close>

type_synonym group_key =
  "string option \<times> string option \<times> rat \<times> string option list \<times> string option list"

definition key_of :: "graph \<Rightarrow> candidate \<times> relationship \<Rightarrow> group_key" where
  "key_of g row =
     (node_title g (fst (fst row)), node_plot g (fst (fst row)), snd (fst row),
      collect_genres g (fst (fst row)), collect_actors g (fst (fst row)))"

definition group_item :: "group_key \<Rightarrow> int option list \<Rightarrow> item" where
  "group_item k vs =
     (case k of (t, p, s, gs, as) \<Rightarrow>
        \<lparr>title = t, plot = p, similarityScore = Some s, genres = gs, actors = as,
         userRating = avg vs\<rparr>)"

definition return_grouped :: "graph \<Rightarrow> (candidate \<times> relationship) list \<Rightarrow> item list" where
  "return_grouped g rows =
     map (\<lambda>k. group_item k (map (\<lambda>row. rating (snd row)) (filter (\<lambda>row. key_of g row = k) rows)))
       (remdups (map (key_of g) rows))"

text \<open>\<^verbatim>\<open>ORDER BY userRating DESC\<close>. In descending order Cypher puts null before every
  number. Cypher fixes no order among equal ratings; an insertion sort picks one.\<close>

definition rating_ge :: "rat option \<Rightarrow> rat option \<Rightarrow> bool" where
  "rating_ge a b =
     (case a of None \<Rightarrow> True | Some x \<Rightarrow> (case b of None \<Rightarrow> False | Some y \<Rightarrow> y \<le> x))"

fun insert_desc :: "item \<Rightarrow> item list \<Rightarrow> item list" where
  "insert_desc i [] = [i]"
| "insert_desc i (j # js) =
     (if rating_ge (userRating i) (userRating j) then i # j # js else j # insert_desc i js)"

fun order_by_userRating_desc :: "item list \<Rightarrow> item list" where
  "order_by_userRating_desc [] = []"
| "order_by_userRating_desc (i # is) = insert_desc i (order_by_userRating_desc is)"

definition retrieval_query :: "graph \<Rightarrow> candidate list \<Rightarrow> item list" where
  "retrieval_query g rows = order_by_userRating_desc (return_grouped g (match_rated g rows))"

section \<open>The retriever around the query\<close>

text \<open>
  Modelled from the spec: the vector index and the embedding service are not part of the
  repository. Section 4.3 gives the retriever's steps: embed the text, search the named index
  for the nearest neighbours, bounded by the result-count limit, and run the retrieval query
  on the candidates. The index is a parameter: for a query text it gives the indexed nodes
  with their similarity scores, nearest first.
\<close>

type_synonym vector_index = "string \<Rightarrow> candidate list"

definition queryNodes :: "vector_index \<Rightarrow> nat \<Rightarrow> string \<Rightarrow> candidate list" where
  "queryNodes idx top_k text = take top_k (idx text)"

definition retriever_search :: "graph \<Rightarrow> vector_index \<Rightarrow> string \<Rightarrow> nat \<Rightarrow> item list" where
  "retriever_search g idx text top_k = retrieval_query g (queryNodes idx top_k text)"

definition query_text :: string where
  "query_text = ''Find the highest rated action movie about travelling to other planets''"

section \<open>The scripts as straight-line programs\<close>

text \<open>
  Each script is a sequence of top-level statements with no \<^verbatim>\<open>try\<close>, so the first
  statement that raises ends the process. Every statement that leaves the script (an import,
  a library constructor, the search, a print, the close) is a \<open>call\<close> with the arguments
  the script passes. What the libraries and services do with a call is not in the
  repository: a \<open>world\<close> says which calls raise and what the search returns.
\<close>

type_synonym environ = "string \<rightharpoonup> string"

text \<open>\<^verbatim>\<open>load_dotenv()\<close> adds the variables of the \<^verbatim>\<open>.env\<close> file and keeps the ones
  that are set already; \<^verbatim>\<open>os.getenv\<close> gives \<open>None\<close> for a variable that is not set and
  does not raise.\<close>

definition load_dotenv :: "environ \<Rightarrow> environ \<Rightarrow> environ" where
  "load_dotenv file env = file ++ env"

definition getenv :: "environ \<Rightarrow> string \<Rightarrow> string option" where
  "getenv env k = env k"

record RetrieverResult =
  items :: "string list"
  metadata :: "(string \<rightharpoonup> string) option"

record RagResultModel =
  answer :: string
  retriever_result :: "RetrieverResult option"

datatype call =
    Import string
  | Load_dotenv
  | GraphDatabase_driver "string option" "string option" "string option"
  | OpenAILLM string "(string \<times> int) list"
  | OpenAIEmbeddings string
  | Text2CypherRetriever string "string list"
  | VectorCypherRetriever string string
  | GraphRAG
  | Rag_search string "(string \<times> nat) list" bool
  | Print "string list"
  | Driver_close

datatype exn = Raised call | AttributeError | TypeError | KeyError

record world =
  dotenv_file :: environ
  raises :: "call list \<Rightarrow> call \<Rightarrow> bool"
  search_returns :: "string \<Rightarrow> RagResultModel"

text \<open>A step is a call, or an exception raised while its arguments are evaluated. The run
  returns the calls made, the raising one included, and the uncaught exception if any.\<close>

fun run :: "world \<Rightarrow> call list \<Rightarrow> (exn + call) list \<Rightarrow> call list \<times> exn option" where
  "run w tr [] = (tr, None)"
| "run w tr (Inl e # ss) = (tr, Some e)"
| "run w tr (Inr c # ss) =
     (if raises w tr c then (tr @ [c], Some (Raised c)) else run w (tr @ [c]) ss)"

text \<open>\<^verbatim>\<open>response.retriever_result.metadata["cypher"]\<close> and
  \<^verbatim>\<open>response.retriever_result.items\<close>: an attribute of \<^verbatim>\<open>None\<close>, a subscript of
  \<^verbatim>\<open>None\<close> and a missing key each raise.\<close>

definition metadata_cypher :: "RagResultModel \<Rightarrow> exn + string list" where
  "metadata_cypher response =
     (case retriever_result response of
        None \<Rightarrow> Inl AttributeError
      | Some rr \<Rightarrow>
          (case metadata rr of
             None \<Rightarrow> Inl TypeError
           | Some m \<Rightarrow> (case m ''cypher'' of None \<Rightarrow> Inl KeyError | Some q \<Rightarrow> Inr [q])))"

definition result_items :: "RagResultModel \<Rightarrow> exn + string list" where
  "result_items response =
     (case retriever_result response of
        None \<Rightarrow> Inl AttributeError
      | Some rr \<Rightarrow> Inr (items rr))"

definition print_labelled :: "string \<Rightarrow> exn + string list \<Rightarrow> exn + call" where
  "print_labelled label v = (case v of Inl e \<Rightarrow> Inl e | Inr xs \<Rightarrow> Inr (Print (label # xs)))"

definition unlines :: "string list \<Rightarrow> string" where
  "unlines ls = concat (map (\<lambda>l. l @ ''\<newline>'') ls)"

subsection \<open>\<^verbatim>\<open>text2cypher_rag.py\<close>\<close>

definition neo4j_schema :: string where
  "neo4j_schema = unlines
     ['''',
      ''Node properties:'',
      ''Person {name: STRING, born: INTEGER}'',
      ''Movie {tagline: STRING, title: STRING, released: INTEGER}'',
      ''Genre {name: STRING}'',
      ''User {name: STRING}'',
      '''',
      ''Relationship properties:'',
      ''ACTED_IN {role: STRING}'',
      ''RATED {rating: INTEGER}'',
      '''',
      ''The relationships:'',
      ''(:Person)-[:ACTED_IN]->(:Movie)'',
      ''(:Person)-[:DIRECTED]->(:Movie)'',
      ''(:User)-[:RATED]->(:Movie)'',
      ''(:Movie)-[:IN_GENRE]->(:Genre)'']"

definition examples :: "string list" where
  "examples =
     [''USER INPUT: 'Get user ratings for a movie?' QUERY: MATCH (u:User)-[r:RATED]->(m:Movie) WHERE m.title = 'Movie Title' RETURN r.rating'']"

definition text2cypher_query_text :: string where
  "text2cypher_query_text = ''What year was the movie Babe released?''"

text \<open>The statements before the search, the search, and the statements after it.\<close>

definition text2cypher_setup :: "environ \<Rightarrow> call list" where
  "text2cypher_setup env =
     [Import ''os'',
      Import ''dotenv'',
      Load_dotenv,
      Import ''neo4j'',
      Import ''neo4j_graphrag.llm'',
      Import ''neo4j_graphrag.generation'',
      Import ''neo4j_graphrag.retrievers'',
      GraphDatabase_driver
        (getenv env ''NEO4J_URI'') (getenv env ''NEO4J_USERNAME'') (getenv env ''NEO4J_PASSWORD''),
      OpenAILLM ''gpt-4o'' [(''temperature'', 0)],
      Text2CypherRetriever neo4j_schema examples,
      OpenAILLM ''gpt-4o'' [],
      GraphRAG]"

definition text2cypher_search :: call where
  "text2cypher_search = Rag_search text2cypher_query_text [] True"

definition text2cypher_rag :: "world \<Rightarrow> environ \<Rightarrow> call list \<times> exn option" where
  "text2cypher_rag w env0 =
     (let env = load_dotenv (dotenv_file w) env0;
          response = search_returns w text2cypher_query_text
      in run w []
           (map Inr (text2cypher_setup env) @
            [Inr text2cypher_search,
             Inr (Print [answer response]),
             print_labelled ''CYPHER :'' (metadata_cypher response),
             print_labelled ''CONTEXT:'' (result_items response),
             Inr Driver_close]))"

subsection \<open>\<^verbatim>\<open>vector_cypher_rag.py\<close>\<close>

text \<open>The text of the retrieval query, without the \<^verbatim>\<open>//\<close> comments that end its lines
  and the blanks before them. The function \<open>retrieval_query\<close> above is what the text
  computes.\<close>

definition retrieval_query_text :: string where
  "retrieval_query_text = unlines
     ['''',
      ''MATCH (node) <-[r:RATED]-()'',
      ''RETURN'',
      ''    node.title AS title,'',
      ''    node.plot AS plot,'',
      ''    score AS similarityScore,'',
      ''    collect { MATCH (node)-[:IN_GENRE]->(g) RETURN g.name } as genres,'',
      ''    collect { MATCH (node)<-[:ACTED_IN]->(a) RETURN a.name } as actors,'',
      ''    avg(r.rating) as userRating'',
      ''ORDER BY userRating DESC'']"

definition vector_cypher_setup :: "environ \<Rightarrow> call list" where
  "vector_cypher_setup env =
     [Import ''os'',
      Import ''dotenv'',
      Load_dotenv,
      Import ''neo4j'',
      Import ''neo4j_graphrag.embeddings.openai'',
      Import ''neo4j_graphrag.llm'',
      Import ''neo4j_graphrag.generation'',
      Import ''neo4j_graphrag.retrievers'',
      GraphDatabase_driver
        (getenv env ''NEO4J_URI'') (getenv env ''NEO4J_USERNAME'') (getenv env ''NEO4J_PASSWORD''),
      OpenAIEmbeddings ''text-embedding-3-small'',
      VectorCypherRetriever ''moviePlots'' retrieval_query_text,
      OpenAILLM ''gpt-4o'' [],
      GraphRAG]"

definition vector_cypher_search :: call where
  "vector_cypher_search = Rag_search query_text [(''top_k'', 5)] True"

definition vector_cypher_rag :: "world \<Rightarrow> environ \<Rightarrow> call list \<times> exn option" where
  "vector_cypher_rag w env0 =
     (let env = load_dotenv (dotenv_file w) env0;
          response = search_returns w query_text
      in run w []
           (map Inr (vector_cypher_setup env) @
            [Inr vector_cypher_search,
             Inr (Print [answer response]),
             print_labelled ''CONTEXT:'' (result_items response),
             Inr Driver_close]))"

text \<open>No call of a list raises when made in order after the calls \<open>tr\<close>.\<close>

fun all_return :: "world \<Rightarrow> call list \<Rightarrow> call list \<Rightarrow> bool" where
  "all_return w tr [] = True"
| "all_return w tr (c # cs) = (\<not> raises w tr c \<and> all_return w (tr @ [c]) cs)"

section \<open>Concrete inputs\<close>

text \<open>A small graph: five movies, of which \<open>Solaris\<close> (node 4) has no rating, and an
  index that ranks six nodes for every text.\<close>

definition rated :: "node_id \<Rightarrow> node_id \<Rightarrow> int option \<Rightarrow> relationship" where
  "rated u m v = \<lparr>start_node = u, rel_type = ''RATED'', end_node = m, rating = v\<rparr>"

definition sample_graph :: graph where
  "sample_graph =
     \<lparr>node_title = map_of [(0, ''Interstellar''), (1, ''Avatar''), (2, ''Dune''),
                           (3, ''The Martian''), (4, ''Solaris'')],
      node_plot = (\<lambda>n. None),
      node_name = map_of [(10, ''Action''), (20, ''Sam Worthington'')],
      relationships =
        [rated 30 0 (Some 5), rated 31 0 (Some 4), rated 30 1 (Some 3),
         rated 30 2 (Some 4), rated 31 3 (Some 2),
         \<lparr>start_node = 1, rel_type = ''IN_GENRE'', end_node = 10, rating = None\<rparr>,
         \<lparr>start_node = 20, rel_type = ''ACTED_IN'', end_node = 1, rating = None\<rparr>]\<rparr>"

definition sample_index :: vector_index where
  "sample_index text =
     [(0, 9 / 10), (1, 8 / 10), (2, 7 / 10), (3, 6 / 10), (4, 5 / 10), (5, 4 / 10)]"

text \<open>The same graph with one more \<^verbatim>\<open>RATED\<close> relationship, into \<open>Solaris\<close>, that carries
  no \<^verbatim>\<open>rating\<close> property.\<close>

definition unscored_graph :: graph where
  "unscored_graph =
     sample_graph\<lparr>relationships := relationships sample_graph @ [rated 30 4 None]\<rparr>"

text \<open>A world in which no call raises, one in which the search raises, and one in which the
  driver refuses a missing address or credential. An environment that sets the address
  only.\<close>

definition quiet_world :: world where
  "quiet_world =
     \<lparr>dotenv_file = Map.empty,
      raises = (\<lambda>tr c. False),
      search_returns = (\<lambda>q.
        \<lparr>answer = ''1995'',
         retriever_result = Some
           \<lparr>items = [''1995''],
            metadata = Some [''cypher'' \<mapsto> ''MATCH (m:Movie) RETURN m.released'']\<rparr>\<rparr>)\<rparr>"

definition search_fails_world :: world where
  "search_fails_world =
     quiet_world\<lparr>raises := (\<lambda>tr c. case c of Rag_search q cfg rc \<Rightarrow> True | _ \<Rightarrow> False)\<rparr>"

definition strict_driver_world :: world where
  "strict_driver_world =
     quiet_world\<lparr>raises := (\<lambda>tr c.
        case c of GraphDatabase_driver u n p \<Rightarrow> u = None \<or> n = None \<or> p = None
        | _ \<Rightarrow> False)\<rparr>"

definition address_only :: environ where
  "address_only = [''NEO4J_URI'' \<mapsto> ''bolt://localhost:7687'']"

text \<open>The grouping key of a row depends on its candidate only.\<close>

definition candidate_key :: "graph \<Rightarrow> candidate \<Rightarrow> group_key" where
  "candidate_key g c =
     (node_title g (fst c), node_plot g (fst c), snd c,
      collect_genres g (fst c), collect_actors g (fst c))"

section \<open>Properties of the retrieval query\<close>

lemma match_rated_filter:
  "match_rated g (filter (\<lambda>c. rated_into g (fst c) \<noteq> []) cs) = match_rated g cs"
  by (induction cs) (simp_all add: match_rated_def)

lemma key_of_candidate: "key_of g (c, r) = candidate_key g c"
  by (simp add: key_of_def candidate_key_def)

lemma keys_match_rated:
  "set (map (key_of g) (match_rated g cs)) \<subseteq> candidate_key g ` set cs"
  by (auto simp: match_rated_def key_of_candidate)

lemma length_return_grouped:
  "length (return_grouped g (match_rated g cs)) \<le> length cs"
proof -
  have "length (return_grouped g (match_rated g cs))
        = card (set (map (key_of g) (match_rated g cs)))"
    by (simp add: return_grouped_def length_remdups_card_conv del: set_map)
  also have "\<dots> \<le> card (candidate_key g ` set cs)"
    by (rule card_mono[OF _ keys_match_rated]) simp
  also have "\<dots> \<le> card (set cs)"
    by (rule card_image_le) simp
  also have "\<dots> \<le> length cs"
    by (rule card_length)
  finally show ?thesis .
qed

lemma length_insert_desc: "length (insert_desc i js) = Suc (length js)"
  by (induction js) simp_all

lemma length_order_by: "length (order_by_userRating_desc xs) = length xs"
  by (induction xs) (simp_all add: length_insert_desc)

lemma set_insert_desc: "set (insert_desc i js) = insert i (set js)"
  by (induction js) auto

lemma set_order_by: "set (order_by_userRating_desc xs) = set xs"
  by (induction xs) (simp_all add: set_insert_desc)

lemma rating_ge_total: "\<not> rating_ge a b \<Longrightarrow> rating_ge b a"
  by (auto simp: rating_ge_def split: option.splits)

lemma rating_ge_trans: "rating_ge a b \<Longrightarrow> rating_ge b c \<Longrightarrow> rating_ge a c"
  by (auto simp: rating_ge_def split: option.splits)

lemma sorted_insert_desc:
  "sorted_wrt (\<lambda>a b. rating_ge (userRating a) (userRating b)) js \<Longrightarrow>
   sorted_wrt (\<lambda>a b. rating_ge (userRating a) (userRating b)) (insert_desc i js)"
  by (induction js) (auto simp: set_insert_desc dest: rating_ge_total rating_ge_trans)

lemma sorted_order_by:
  "sorted_wrt (\<lambda>a b. rating_ge (userRating a) (userRating b)) (order_by_userRating_desc xs)"
  by (induction xs) (simp_all add: sorted_insert_desc)

lemma length_retrieval_query: "length (retrieval_query g cs) \<le> length cs"
  by (simp add: retrieval_query_def length_order_by length_return_grouped)

lemma retrieval_query_filter:
  "retrieval_query g (filter (\<lambda>c. rated_into g (fst c) \<noteq> []) cs) = retrieval_query g cs"
  by (simp add: retrieval_query_def match_rated_filter)

lemma score_present: "i \<in> set (retrieval_query g cs) \<Longrightarrow> similarityScore i \<noteq> None"
  by (auto simp: retrieval_query_def set_order_by return_grouped_def group_item_def
      split: prod.splits)

lemma avg_Some: "v \<in> set vs \<Longrightarrow> v \<noteq> None \<Longrightarrow> avg vs \<noteq> None"
  by (auto simp: avg_def Let_def filter_empty_conv)

text \<open>A group that holds a row of a candidate holds all rows of that candidate, so one
  rating among them makes the average a number.\<close>

lemma rating_present:
  assumes some: "\<forall>c\<in>set cs. rated_into g (fst c) \<noteq> [] \<longrightarrow>
                   (\<exists>r\<in>set (rated_into g (fst c)). rating r \<noteq> None)"
    and i: "i \<in> set (retrieval_query g cs)"
  shows "userRating i \<noteq> None"
proof -
  from i have "i \<in> (\<lambda>k. group_item k (map (\<lambda>row. rating (snd row))
                 (filter (\<lambda>row. key_of g row = k) (match_rated g cs))))
               ` set (map (key_of g) (match_rated g cs))"
    by (simp add: retrieval_query_def set_order_by return_grouped_def)
  then obtain k where k: "k \<in> set (map (key_of g) (match_rated g cs))"
    and ik: "i = group_item k (map (\<lambda>row. rating (snd row))
                 (filter (\<lambda>row. key_of g row = k) (match_rated g cs)))"
    by (rule imageE)
  from k obtain c r where c: "c \<in> set cs" and r: "r \<in> set (rated_into g (fst c))"
    and kc: "k = candidate_key g c"
    by (auto simp: match_rated_def key_of_candidate)
  from r have "rated_into g (fst c) \<noteq> []" by auto
  with some c obtain r' where r': "r' \<in> set (rated_into g (fst c))" and v: "rating r' \<noteq> None"
    by blast
  from c r' have "(c, r') \<in> set (match_rated g cs)"
    by (auto simp: match_rated_def)
  with kc have "rating r' \<in> set (map (\<lambda>row. rating (snd row))
                 (filter (\<lambda>row. key_of g row = k) (match_rated g cs)))"
    by (force simp: key_of_candidate)
  from avg_Some[OF this v] ik show ?thesis
    by (simp add: group_item_def split: prod.splits)
qed

lemma sample_ratings:
  "map userRating (retriever_search sample_graph sample_index query_text 5)
   = [Some (9 / 2), Some 4, Some 3, Some 2]"
  by (simp add: retriever_search_def queryNodes_def sample_index_def retrieval_query_def
      match_rated_def rated_into_def sample_graph_def rated_def return_grouped_def key_of_def
      collect_genres_def collect_actors_def group_item_def avg_def rating_ge_def)

lemma sample_candidates: "length (queryNodes sample_index 5 query_text) = 5"
  by (simp add: queryNodes_def sample_index_def)

lemma sample_rated_candidates:
  "filter (\<lambda>c. rated_into sample_graph (fst c) \<noteq> []) (queryNodes sample_index 5 query_text)
   = [(0, 9 / 10), (1, 8 / 10), (2, 7 / 10), (3, 6 / 10)]"
  by (simp add: queryNodes_def sample_index_def rated_into_def sample_graph_def rated_def)

text \<open>C9. A candidate of the similarity search that no \<^verbatim>\<open>RATED\<close> relationship points to
  contributes nothing: the retriever returns exactly what it returns on the candidates that
  have such a relationship, so at most one item for each of them, and there is a graph and
  an index where the search gives five candidates and the retriever fewer than five
  items.\<close>

theorem unrated_candidate_yields_no_item:
  "retriever_search g idx text top_k
     = retrieval_query g
         (filter (\<lambda>c. rated_into g (fst c) \<noteq> []) (queryNodes idx top_k text))
   \<and> length (retriever_search g idx text top_k)
       \<le> length (filter (\<lambda>c. rated_into g (fst c) \<noteq> []) (queryNodes idx top_k text))
   \<and> (\<exists>g' idx'. length (queryNodes idx' 5 query_text) = 5
         \<and> length (retriever_search g' idx' query_text 5) < 5)"
proof (intro conjI)
  show eq: "retriever_search g idx text top_k
     = retrieval_query g
         (filter (\<lambda>c. rated_into g (fst c) \<noteq> []) (queryNodes idx top_k text))"
    by (simp add: retriever_search_def retrieval_query_filter)
  show "length (retriever_search g idx text top_k)
       \<le> length (filter (\<lambda>c. rated_into g (fst c) \<noteq> []) (queryNodes idx top_k text))"
    unfolding eq by (rule length_retrieval_query)
  have "length (map userRating (retriever_search sample_graph sample_index query_text 5)) = 4"
    by (simp only: sample_ratings) simp
  then have "length (retriever_search sample_graph sample_index query_text 5) < 5"
    by simp
  with sample_candidates
  show "\<exists>g' idx'. length (queryNodes idx' 5 query_text) = 5
         \<and> length (retriever_search g' idx' query_text 5) < 5"
    by blast
qed

text \<open>On the sample graph the search gives five candidates, \<open>Solaris\<close> has no rating, and
  at most four items come back.\<close>

theorem unrated_candidate_yields_no_item_witness:
  "length (queryNodes sample_index 5 query_text) = 5
   \<and> rated_into sample_graph 4 = []
   \<and> length (retriever_search sample_graph sample_index query_text 5) \<le> 4"
proof -
  have "length (retriever_search sample_graph sample_index query_text 5)
        \<le> length (filter (\<lambda>c. rated_into sample_graph (fst c) \<noteq> [])
            (queryNodes sample_index 5 query_text))"
    using unrated_candidate_yields_no_item[of sample_graph sample_index query_text 5]
    by blast
  moreover have "rated_into sample_graph 4 = []"
    by (simp add: rated_into_def sample_graph_def rated_def)
  ultimately show ?thesis
    by (simp add: sample_rated_candidates sample_candidates)
qed

text \<open>C1, as the query computes it. With \<^verbatim>\<open>top_k = 5\<close> on the scenario's question the
  retriever returns at most five items, each with a similarity score, in descending order
  of the aggregated rating, where a null rating comes before every number. The aggregated
  rating of every item is a number provided each candidate that has \<^verbatim>\<open>RATED\<close>
  relationships has one that carries a rating.\<close>

theorem scenario_b_context_items:
  "length (retriever_search g idx query_text 5) \<le> 5
   \<and> (\<forall>i\<in>set (retriever_search g idx query_text 5). similarityScore i \<noteq> None)
   \<and> sorted_wrt (\<lambda>a b. rating_ge (userRating a) (userRating b))
        (retriever_search g idx query_text 5)
   \<and> ((\<forall>c\<in>set (queryNodes idx 5 query_text). rated_into g (fst c) \<noteq> [] \<longrightarrow>
          (\<exists>r\<in>set (rated_into g (fst c)). rating r \<noteq> None))
       \<longrightarrow> (\<forall>i\<in>set (retriever_search g idx query_text 5). userRating i \<noteq> None))"
proof (intro conjI impI ballI)
  have "length (retriever_search g idx query_text 5) \<le> length (queryNodes idx 5 query_text)"
    by (simp add: retriever_search_def length_retrieval_query)
  also have "\<dots> \<le> 5"
    by (simp add: queryNodes_def)
  finally show "length (retriever_search g idx query_text 5) \<le> 5" .
next
  fix i assume "i \<in> set (retriever_search g idx query_text 5)"
  then show "similarityScore i \<noteq> None"
    by (simp add: retriever_search_def score_present)
next
  show "sorted_wrt (\<lambda>a b. rating_ge (userRating a) (userRating b))
        (retriever_search g idx query_text 5)"
    by (simp add: retriever_search_def retrieval_query_def sorted_order_by)
next
  fix i
  assume "\<forall>c\<in>set (queryNodes idx 5 query_text). rated_into g (fst c) \<noteq> [] \<longrightarrow>
          (\<exists>r\<in>set (rated_into g (fst c)). rating r \<noteq> None)"
    and "i \<in> set (retriever_search g idx query_text 5)"
  then show "userRating i \<noteq> None"
    unfolding retriever_search_def by (rule rating_present)
qed

lemma sample_all_rated:
  "\<forall>c\<in>set (queryNodes sample_index 5 query_text). rated_into sample_graph (fst c) \<noteq> [] \<longrightarrow>
     (\<exists>r\<in>set (rated_into sample_graph (fst c)). rating r \<noteq> None)"
  by (simp add: queryNodes_def sample_index_def rated_into_def sample_graph_def rated_def)

text \<open>The sample graph meets the proviso, and every item has both numbers.\<close>

theorem scenario_b_context_items_witness:
  "length (retriever_search sample_graph sample_index query_text 5) \<le> 5
   \<and> None \<notin> userRating ` set (retriever_search sample_graph sample_index query_text 5)
   \<and> None \<notin> similarityScore ` set (retriever_search sample_graph sample_index query_text 5)"
proof -
  note facts = scenario_b_context_items[of sample_graph sample_index]
  from facts have "length (retriever_search sample_graph sample_index query_text 5) \<le> 5"
    by (rule conjunct1)
  moreover from facts sample_all_rated
  have "\<forall>i\<in>set (retriever_search sample_graph sample_index query_text 5). userRating i \<noteq> None"
    by blast
  moreover from facts
  have "\<forall>i\<in>set (retriever_search sample_graph sample_index query_text 5).
          similarityScore i \<noteq> None"
    by blast
  ultimately show ?thesis
    by (metis imageE)
qed

text \<open>Without the proviso the rating can be null: \<open>Solaris\<close> with its one unscored
  \<^verbatim>\<open>RATED\<close> relationship is returned, first, with a null \<^verbatim>\<open>userRating\<close>.\<close>

theorem scenario_b_null_rating:
  "map userRating (retriever_search unscored_graph sample_index query_text 5)
   = [None, Some (9 / 2), Some 4, Some 3, Some 2]"
  by (simp add: retriever_search_def queryNodes_def sample_index_def retrieval_query_def
      match_rated_def rated_into_def sample_graph_def unscored_graph_def rated_def
      return_grouped_def key_of_def collect_genres_def collect_actors_def group_item_def
      avg_def rating_ge_def)

section \<open>Properties of the scripts\<close>

lemma run_all_return:
  "all_return w tr cs \<Longrightarrow> run w tr (map Inr cs @ rest) = run w (tr @ cs) rest"
  by (induction cs arbitrary: tr) simp_all

lemma run_not_all_return:
  "\<not> all_return w tr cs \<Longrightarrow> set (fst (run w tr (map Inr cs @ rest))) \<subseteq> set tr \<union> set cs"
proof (induction cs arbitrary: tr)
  case Nil
  then show ?case by simp
next
  case (Cons c cs)
  show ?case
  proof (cases "raises w tr c")
    case True
    then show ?thesis by auto
  next
    case False
    with Cons.prems have "\<not> all_return w (tr @ [c]) cs" by simp
    from Cons.IH[OF this] False show ?thesis by auto
  qed
qed

lemma trace_grows: "set tr \<subseteq> set (fst (run w tr ss))"
proof (induction ss arbitrary: tr)
  case Nil
  then show ?case by simp
next
  case (Cons s ss)
  show ?case
  proof (cases s)
    case (Inl e)
    then show ?thesis by simp
  next
    case (Inr c)
    show ?thesis
    proof (cases "raises w tr c")
      case True
      with Inr show ?thesis by auto
    next
      case False
      with Inr Cons.IH[of "tr @ [c]"] show ?thesis by auto
    qed
  qed
qed

lemma trace_within: "set (fst (run w tr ss)) \<subseteq> set tr \<union> {c. Inr c \<in> set ss}"
proof (induction ss arbitrary: tr)
  case Nil
  then show ?case by simp
next
  case (Cons s ss)
  show ?case
  proof (cases s)
    case (Inl e)
    then show ?thesis by simp
  next
    case (Inr c)
    show ?thesis
    proof (cases "raises w tr c")
      case True
      with Inr show ?thesis by auto
    next
      case False
      with Inr Cons.IH[of "tr @ [c]"] show ?thesis by auto
    qed
  qed
qed

text \<open>A call that follows the calls \<open>cs\<close>, and is not one of them, is made exactly when
  none of them raises.\<close>

lemma reached_iff_all_return:
  assumes "c \<notin> set tr" and "c \<notin> set cs"
  shows "c \<in> set (fst (run w tr (map Inr cs @ Inr c # rest))) \<longleftrightarrow> all_return w tr cs"
proof (cases "all_return w tr cs")
  case True
  have "c \<in> set (tr @ cs @ [c])" by simp
  moreover have "set (tr @ cs @ [c]) \<subseteq> set (fst (run w tr (map Inr cs @ Inr c # rest)))"
  proof (cases "raises w (tr @ cs) c")
    case True
    with \<open>all_return w tr cs\<close> show ?thesis by (simp add: run_all_return)
  next
    case False
    with \<open>all_return w tr cs\<close> trace_grows[of "(tr @ cs) @ [c]" w rest]
    show ?thesis by (simp add: run_all_return)
  qed
  ultimately show ?thesis using True by blast
next
  case False
  from run_not_all_return[OF this] assms show ?thesis using False by blast
qed

text \<open>The last call of a script is made exactly when nothing before it raised.\<close>

lemma run_reaches_last:
  assumes "c \<notin> set tr" and "Inr c \<notin> set ss" and "Inl (Raised c) \<notin> set ss"
  shows "c \<in> set (fst (run w tr (ss @ [Inr c]))) \<longleftrightarrow>
         snd (run w tr (ss @ [Inr c])) \<in> {None, Some (Raised c)}"
  using assms
proof (induction ss arbitrary: tr)
  case Nil
  then show ?case by simp
next
  case (Cons s ss)
  show ?case
  proof (cases s)
    case (Inl e)
    with Cons.prems show ?thesis by auto
  next
    case (Inr d)
    with Cons.prems have dc: "d \<noteq> c" by auto
    show ?thesis
    proof (cases "raises w tr d")
      case True
      with Inr dc Cons.prems show ?thesis by auto
    next
      case False
      have "c \<notin> set (tr @ [d])" using dc Cons.prems by auto
      from Cons.IH[OF this] Cons.prems Inr False show ?thesis by auto
    qed
  qed
qed

lemma print_labelled_cases:
  "(\<exists>xs. print_labelled l v = Inr (Print (l # xs))) \<or> (\<exists>e. v = Inl e \<and> print_labelled l v = Inl e)"
  by (cases v) (simp_all add: print_labelled_def)

lemma metadata_cypher_not_Raised: "metadata_cypher r \<noteq> Inl (Raised c)"
  by (simp add: metadata_cypher_def split: option.splits)

lemma result_items_not_Raised: "result_items r \<noteq> Inl (Raised c)"
  by (simp add: result_items_def split: option.splits)

lemma print_cypher_step:
  "print_labelled l (metadata_cypher r) \<noteq> Inr Driver_close
   \<and> print_labelled l (metadata_cypher r) \<noteq> Inl (Raised c)
   \<and> print_labelled l (metadata_cypher r) \<noteq> Inr (GraphDatabase_driver u n p)"
  using print_labelled_cases[of l "metadata_cypher r"] metadata_cypher_not_Raised[of r c]
  by auto

lemma print_items_step:
  "print_labelled l (result_items r) \<noteq> Inr Driver_close
   \<and> print_labelled l (result_items r) \<noteq> Inl (Raised c)
   \<and> print_labelled l (result_items r) \<noteq> Inr (GraphDatabase_driver u n p)"
  using print_labelled_cases[of l "result_items r"] result_items_not_Raised[of r c]
  by auto

lemma text2cypher_close:
  "Driver_close \<in> set (fst (text2cypher_rag w env)) \<longleftrightarrow>
   snd (text2cypher_rag w env) \<in> {None, Some (Raised Driver_close)}"
proof -
  let ?e = "load_dotenv (dotenv_file w) env"
  let ?r = "search_returns w text2cypher_query_text"
  let ?ss = "map Inr (text2cypher_setup ?e) @
            [Inr text2cypher_search,
             Inr (Print [answer ?r]),
             print_labelled ''CYPHER :'' (metadata_cypher ?r),
             print_labelled ''CONTEXT:'' (result_items ?r)]"
  have eq: "text2cypher_rag w env = run w [] (?ss @ [Inr Driver_close])"
    by (simp add: text2cypher_rag_def Let_def)
  have a: "Inr Driver_close \<notin> set ?ss"
    using print_cypher_step[of "''CYPHER :''" ?r] print_items_step[of "''CONTEXT:''" ?r]
    by (auto simp: text2cypher_setup_def text2cypher_search_def)
  have b: "Inl (Raised Driver_close) \<notin> set ?ss"
    using print_cypher_step[of "''CYPHER :''" ?r Driver_close]
      print_items_step[of "''CONTEXT:''" ?r Driver_close]
    by (auto simp: text2cypher_setup_def text2cypher_search_def)
  show ?thesis
    unfolding eq by (rule run_reaches_last[OF _ a b]) simp
qed

lemma vector_cypher_close:
  "Driver_close \<in> set (fst (vector_cypher_rag w env)) \<longleftrightarrow>
   snd (vector_cypher_rag w env) \<in> {None, Some (Raised Driver_close)}"
proof -
  let ?e = "load_dotenv (dotenv_file w) env"
  let ?r = "search_returns w query_text"
  let ?ss = "map Inr (vector_cypher_setup ?e) @
            [Inr vector_cypher_search,
             Inr (Print [answer ?r]),
             print_labelled ''CONTEXT:'' (result_items ?r)]"
  have eq: "vector_cypher_rag w env = run w [] (?ss @ [Inr Driver_close])"
    by (simp add: vector_cypher_rag_def Let_def)
  have a: "Inr Driver_close \<notin> set ?ss"
    using print_items_step[of "''CONTEXT:''" ?r]
    by (auto simp: vector_cypher_setup_def vector_cypher_search_def)
  have b: "Inl (Raised Driver_close) \<notin> set ?ss"
    using print_items_step[of "''CONTEXT:''" ?r Driver_close]
    by (auto simp: vector_cypher_setup_def vector_cypher_search_def)
  show ?thesis
    unfolding eq by (rule run_reaches_last[OF _ a b]) simp
qed

text \<open>C10. In both scripts \<^verbatim>\<open>driver.close()\<close> is the last statement and nothing catches an
  exception: the close is called exactly in the runs where no earlier statement raised, that
  is, the runs that end without an exception or with the exception of the close itself. A
  run that ends with any other exception, such as one of the search, never calls it.\<close>

theorem close_only_after_success:
  "(Driver_close \<in> set (fst (text2cypher_rag w env)) \<longleftrightarrow>
      snd (text2cypher_rag w env) \<in> {None, Some (Raised Driver_close)})
   \<and> (Driver_close \<in> set (fst (vector_cypher_rag w env)) \<longleftrightarrow>
      snd (vector_cypher_rag w env) \<in> {None, Some (Raised Driver_close)})"
  using text2cypher_close vector_cypher_close by blast

lemma search_fails_outcome:
  "snd (vector_cypher_rag search_fails_world address_only) = Some (Raised vector_cypher_search)"
  by (simp add: vector_cypher_rag_def vector_cypher_setup_def Let_def search_fails_world_def
      quiet_world_def vector_cypher_search_def)

text \<open>When the search raises, the run ends with that exception and never calls the
  close.\<close>

theorem close_only_after_success_witness:
  "snd (vector_cypher_rag search_fails_world address_only) = Some (Raised vector_cypher_search)
   \<and> Driver_close \<notin> set (fst (vector_cypher_rag search_fails_world address_only))"
  using close_only_after_success[of search_fails_world address_only] search_fails_outcome
  by (simp add: vector_cypher_search_def)

lemma text2cypher_driver_args:
  assumes "GraphDatabase_driver u n p \<in> set (fst (text2cypher_rag w env))"
  shows "u = getenv (load_dotenv (dotenv_file w) env) ''NEO4J_URI''
       \<and> n = getenv (load_dotenv (dotenv_file w) env) ''NEO4J_USERNAME''
       \<and> p = getenv (load_dotenv (dotenv_file w) env) ''NEO4J_PASSWORD''"
proof -
  let ?e = "load_dotenv (dotenv_file w) env"
  let ?r = "search_returns w text2cypher_query_text"
  let ?ss = "map Inr (text2cypher_setup ?e) @
            [Inr text2cypher_search,
             Inr (Print [answer ?r]),
             print_labelled ''CYPHER :'' (metadata_cypher ?r),
             print_labelled ''CONTEXT:'' (result_items ?r),
             Inr Driver_close]"
  from assms have "GraphDatabase_driver u n p \<in> set (fst (run w [] ?ss))"
    by (simp add: text2cypher_rag_def Let_def)
  with trace_within[of w "[]" ?ss] have "Inr (GraphDatabase_driver u n p) \<in> set ?ss"
    by auto
  then consider "GraphDatabase_driver u n p \<in> set (text2cypher_setup ?e)"
    | "Inr (GraphDatabase_driver u n p) = print_labelled ''CYPHER :'' (metadata_cypher ?r)"
    | "Inr (GraphDatabase_driver u n p) = print_labelled ''CONTEXT:'' (result_items ?r)"
    by (auto simp: text2cypher_search_def)
  then show ?thesis
  proof cases
    case 1
    then show ?thesis by (simp add: text2cypher_setup_def)
  next
    case 2
    with print_cypher_step[of "''CYPHER :''" ?r Driver_close u n p] show ?thesis by simp
  next
    case 3
    with print_items_step[of "''CONTEXT:''" ?r Driver_close u n p] show ?thesis by simp
  qed
qed

lemma vector_cypher_driver_args:
  assumes "GraphDatabase_driver u n p \<in> set (fst (vector_cypher_rag w env))"
  shows "u = getenv (load_dotenv (dotenv_file w) env) ''NEO4J_URI''
       \<and> n = getenv (load_dotenv (dotenv_file w) env) ''NEO4J_USERNAME''
       \<and> p = getenv (load_dotenv (dotenv_file w) env) ''NEO4J_PASSWORD''"
proof -
  let ?e = "load_dotenv (dotenv_file w) env"
  let ?r = "search_returns w query_text"
  let ?ss = "map Inr (vector_cypher_setup ?e) @
            [Inr vector_cypher_search,
             Inr (Print [answer ?r]),
             print_labelled ''CONTEXT:'' (result_items ?r),
             Inr Driver_close]"
  from assms have "GraphDatabase_driver u n p \<in> set (fst (run w [] ?ss))"
    by (simp add: vector_cypher_rag_def Let_def)
  with trace_within[of w "[]" ?ss] have "Inr (GraphDatabase_driver u n p) \<in> set ?ss"
    by auto
  then consider "GraphDatabase_driver u n p \<in> set (vector_cypher_setup ?e)"
    | "Inr (GraphDatabase_driver u n p) = print_labelled ''CONTEXT:'' (result_items ?r)"
    by (auto simp: vector_cypher_search_def)
  then show ?thesis
  proof cases
    case 1
    then show ?thesis by (simp add: vector_cypher_setup_def)
  next
    case 2
    with print_items_step[of "''CONTEXT:''" ?r Driver_close u n p] show ?thesis by simp
  qed
qed

lemma text2cypher_search_reached:
  "text2cypher_search \<in> set (fst (text2cypher_rag w env)) \<longleftrightarrow>
   all_return w [] (text2cypher_setup (load_dotenv (dotenv_file w) env))"
  unfolding text2cypher_rag_def Let_def append_Cons append_Nil
  by (rule reached_iff_all_return) (simp_all add: text2cypher_setup_def text2cypher_search_def)

lemma vector_cypher_search_reached:
  "vector_cypher_search \<in> set (fst (vector_cypher_rag w env)) \<longleftrightarrow>
   all_return w [] (vector_cypher_setup (load_dotenv (dotenv_file w) env))"
  unfolding vector_cypher_rag_def Let_def append_Cons append_Nil
  by (rule reached_iff_all_return) (simp_all add: vector_cypher_setup_def vector_cypher_search_def)

text \<open>C7, as the scripts do it. The address, the user name and the password are read with
  \<^verbatim>\<open>os.getenv\<close> from the environment that \<^verbatim>\<open>load_dotenv\<close> leaves; a variable that is not
  set is read as \<open>None\<close> and handed to the driver constructor as it is. The scripts check
  nothing themselves: the search is called exactly when no statement before it raises.\<close>

theorem environment_passed_unchecked:
  "(\<forall>u n p. GraphDatabase_driver u n p \<in> set (fst (text2cypher_rag w env)) \<longrightarrow>
       u = getenv (load_dotenv (dotenv_file w) env) ''NEO4J_URI''
     \<and> n = getenv (load_dotenv (dotenv_file w) env) ''NEO4J_USERNAME''
     \<and> p = getenv (load_dotenv (dotenv_file w) env) ''NEO4J_PASSWORD'')
   \<and> (text2cypher_search \<in> set (fst (text2cypher_rag w env)) \<longleftrightarrow>
        all_return w [] (text2cypher_setup (load_dotenv (dotenv_file w) env)))
   \<and> (\<forall>u n p. GraphDatabase_driver u n p \<in> set (fst (vector_cypher_rag w env)) \<longrightarrow>
       u = getenv (load_dotenv (dotenv_file w) env) ''NEO4J_URI''
     \<and> n = getenv (load_dotenv (dotenv_file w) env) ''NEO4J_USERNAME''
     \<and> p = getenv (load_dotenv (dotenv_file w) env) ''NEO4J_PASSWORD'')
   \<and> (vector_cypher_search \<in> set (fst (vector_cypher_rag w env)) \<longleftrightarrow>
        all_return w [] (vector_cypher_setup (load_dotenv (dotenv_file w) env)))"
  using text2cypher_driver_args[of _ _ _ w env] vector_cypher_driver_args[of _ _ _ w env]
    text2cypher_search_reached[of w env] vector_cypher_search_reached[of w env]
  by blast

lemma strict_driver_raises:
  "\<not> all_return strict_driver_world []
       (vector_cypher_setup (load_dotenv (dotenv_file strict_driver_world) address_only))"
  by (simp add: vector_cypher_setup_def strict_driver_world_def quiet_world_def
      load_dotenv_def getenv_def address_only_def)

text \<open>With a driver that refuses a missing credential, the run with the password unset
  stops before the search.\<close>

theorem environment_passed_unchecked_witness:
  "getenv (load_dotenv (dotenv_file strict_driver_world) address_only) ''NEO4J_PASSWORD'' = None
   \<and> vector_cypher_search \<notin> set (fst (vector_cypher_rag strict_driver_world address_only))"
proof -
  have "getenv (load_dotenv (dotenv_file strict_driver_world) address_only) ''NEO4J_PASSWORD''
        = None"
    by (simp add: strict_driver_world_def quiet_world_def load_dotenv_def getenv_def
        address_only_def)
  with environment_passed_unchecked[of strict_driver_world address_only] strict_driver_raises
  show ?thesis by blast
qed

text \<open>With libraries that accept what they are given, the run with the user name and the
  password unset calls the search and ends without an exception.\<close>

theorem unset_password_reaches_search:
  "getenv (load_dotenv (dotenv_file quiet_world) address_only) ''NEO4J_USERNAME'' = None
   \<and> getenv (load_dotenv (dotenv_file quiet_world) address_only) ''NEO4J_PASSWORD'' = None
   \<and> text2cypher_search \<in> set (fst (text2cypher_rag quiet_world address_only))
   \<and> snd (text2cypher_rag quiet_world address_only) = None"
  by (simp add: text2cypher_rag_def text2cypher_setup_def Let_def quiet_world_def
      load_dotenv_def getenv_def address_only_def text2cypher_search_def
      metadata_cypher_def result_items_def print_labelled_def)

end
